theory Spec2Isabelle
  imports Complex_Main
begin

section \<open>Values shared by the store and the wheel\<close>

text \<open>
  The exceptions of \<^verbatim>\<open>horary_master_gui.py\<close> that the modelled functions can meet:
  \<^verbatim>\<open>sqlite3.OperationalError\<close> (a statement names a column the table does not have),
  \<^verbatim>\<open>json.JSONDecodeError\<close> and \<^verbatim>\<open>AttributeError\<close> (a method that the object does not
  have).
\<close>

datatype error =
    OperationalError string
  | JSONDecodeError
  | AttributeError string

text \<open>
  A TEXT column that holds JSON, seen through \<^verbatim>\<open>json.loads\<close>: SQL NULL, the empty
  string (both falsy in Python), a text that decodes to a value, or a text that
  \<^verbatim>\<open>json.loads\<close> rejects with \<^verbatim>\<open>JSONDecodeError\<close>.
\<close>

datatype 'a json_text = SqlNull | EmptyText | Json 'a | NotJson

text \<open>\<^verbatim>\<open>json.loads(t) if t else dflt\<close>\<close>

fun loads_or :: "'a \<Rightarrow> 'a json_text \<Rightarrow> error + 'a" where
  "loads_or dflt SqlNull = Inr dflt"
| "loads_or dflt EmptyText = Inr dflt"
| "loads_or dflt (Json v) = Inr v"
| "loads_or dflt NotJson = Inl JSONDecodeError"

subsection \<open>Instants and their two textual forms\<close>

text \<open>
  A naive Python \<^verbatim>\<open>datetime\<close>. SQLite's \<^verbatim>\<open>CURRENT_TIMESTAMP\<close> writes an instant as
  \<^verbatim>\<open>YYYY-MM-DD HH:MM:SS\<close>; Python's \<^verbatim>\<open>isoformat()\<close> writes it as
  \<^verbatim>\<open>YYYY-MM-DDTHH:MM:SS\<close>, followed by \<^verbatim>\<open>.ffffff\<close> when the microsecond is not zero.
\<close>

record datetime =
  year :: nat
  month :: nat
  day :: nat
  hour :: nat
  minute :: nat
  second :: nat
  microsecond :: nat

definition digit_char :: "nat \<Rightarrow> char" where
  "digit_char d = ''0123456789'' ! d"

fun dec :: "nat \<Rightarrow> string" where
  "dec n = (if n < 10 then [digit_char n] else dec (n div 10) @ [digit_char (n mod 10)])"

declare dec.simps [simp del]

text \<open>\<^verbatim>\<open>%0wd\<close>: decimal digits, zero-padded on the left to width \<open>w\<close>.\<close>

definition pad :: "nat \<Rightarrow> nat \<Rightarrow> string" where
  "pad w n = replicate (w - length (dec n)) (CHR ''0'') @ dec n"

definition date_text :: "datetime \<Rightarrow> string" where
  "date_text d = pad 4 (year d) @ ''-'' @ pad 2 (month d) @ ''-'' @ pad 2 (day d)"

definition time_text :: "datetime \<Rightarrow> string" where
  "time_text d = pad 2 (hour d) @ '':'' @ pad 2 (minute d) @ '':'' @ pad 2 (second d)"

definition current_timestamp :: "datetime \<Rightarrow> string" where
  "current_timestamp d = date_text d @ '' '' @ time_text d"

definition isoformat :: "datetime \<Rightarrow> string" where
  "isoformat d = date_text d @ ''T'' @ time_text d @
     (if microsecond d \<noteq> 0 then ''.'' @ pad 6 (microsecond d) else [])"

text \<open>The order of instants: field by field, most significant first.\<close>

definition instant :: "datetime \<Rightarrow> nat list" where
  "instant d = [year d, month d, day d, hour d, minute d, second d, microsecond d]"

fun lex_le :: "nat list \<Rightarrow> nat list \<Rightarrow> bool" where
  "lex_le [] _ = True"
| "lex_le (x # xs) [] = False"
| "lex_le (x # xs) (y # ys) = (x < y \<or> (x = y \<and> lex_le xs ys))"

definition dt_le :: "datetime \<Rightarrow> datetime \<Rightarrow> bool" where
  "dt_le a b = lex_le (instant a) (instant b)"

text \<open>
  SQLite compares two TEXT values with the BINARY collation: byte by byte, a proper
  prefix before the longer text.
\<close>

fun text_le :: "string \<Rightarrow> string \<Rightarrow> bool" where
  "text_le [] _ = True"
| "text_le (x # xs) [] = False"
| "text_le (x # xs) (y # ys) =
     ((of_char x :: nat) < of_char y \<or> (x = y \<and> text_le xs ys))"

section \<open>ChartDatabase\<close>

subsection \<open>The charts table\<close>

text \<open>
  The result dictionary of the judgment engine, as far as the store and the wheel read
  it: the keys \<^verbatim>\<open>judgment\<close> and \<^verbatim>\<open>confidence\<close> may be missing.
\<close>

record result =
  res_judgment :: "string option"
  res_confidence :: "int option"

text \<open>
  One row of \<^verbatim>\<open>charts\<close>, column by column. \<^verbatim>\<open>question\<close> and \<^verbatim>\<open>location\<close> are
  \<^verbatim>\<open>TEXT NOT NULL\<close>; the other columns admit NULL (\<open>None\<close>). A table created by an
  earlier version has no \<^verbatim>\<open>category\<close> column; then \<open>col_category\<close> is never read.
\<close>

record chart_row =
  col_id :: int
  col_question :: string
  col_location :: string
  col_timestamp :: string
  col_judgment :: "string option"
  col_confidence :: "int option"
  col_chart_data :: "result json_text"
  col_notes :: "string option"
  col_tags :: "string list json_text"
  col_category :: "string option"

text \<open>
  The database file: whether \<^verbatim>\<open>PRAGMA table_info(charts)\<close> lists \<^verbatim>\<open>category\<close>, the
  AUTOINCREMENT counter of \<^verbatim>\<open>sqlite_sequence\<close>, and the rows in insertion order.
\<close>

record database =
  has_category :: bool
  sequence :: int
  charts :: "chart_row list"

text \<open>
  \<^verbatim>\<open>init_database\<close>: \<^verbatim>\<open>CREATE TABLE IF NOT EXISTS\<close> creates the current schema on a
  new file and leaves an existing table as it is.
\<close>

definition new_database :: database where
  "new_database = \<lparr>has_category = True, sequence = 0, charts = []\<rparr>"

fun init_database :: "database option \<Rightarrow> database" where
  "init_database None = new_database"
| "init_database (Some db) = db"

text \<open>\<^verbatim>\<open>PRAGMA table_info(charts)\<close>, then \<^verbatim>\<open>[column[1] for column in ...]\<close>.\<close>

definition columns :: "database \<Rightarrow> string list" where
  "columns db =
     [''id'', ''question'', ''location'', ''timestamp'', ''judgment'', ''confidence'',
      ''chart_data'', ''notes'', ''tags''] @
     (if has_category db then [''category''] else [])"

text \<open>
  The rowid an AUTOINCREMENT insert assigns: one more than the largest rowid the table
  has ever held.
\<close>

definition lastrowid :: "database \<Rightarrow> int" where
  "lastrowid db = fold max (map col_id (charts db)) (sequence db) + 1"

subsection \<open>save\_chart\<close>

text \<open>
  \<^verbatim>\<open>save_chart(question, location, result, notes, tags, category)\<close>. The INSERT names
  the column \<^verbatim>\<open>category\<close>, so on a table without it SQLite raises OperationalError.
  The timestamp is the column default, \<^verbatim>\<open>CURRENT_TIMESTAMP\<close>, here the clock \<open>now\<close>.
  There is no check of \<open>question\<close> or \<open>location\<close>. It returns the new id and the
  database after the commit.
\<close>

definition save_chart ::
  "datetime \<Rightarrow> database \<Rightarrow> string \<Rightarrow> string \<Rightarrow> result \<Rightarrow> string \<Rightarrow> string list option \<Rightarrow> string
     \<Rightarrow> error + (int \<times> database)" where
  "save_chart now db question location res notes tags category =
     (let chart_data = Json res;
          judgment = (case res_judgment res of Some j \<Rightarrow> j | None \<Rightarrow> ''UNKNOWN'');
          confidence = (case res_confidence res of Some c \<Rightarrow> c | None \<Rightarrow> 0);
          tags_str = (case tags of Some (t # ts) \<Rightarrow> Json (t # ts) | _ \<Rightarrow> Json [])
      in if \<not> has_category db
         then Inl (OperationalError ''table charts has no column named category'')
         else
           let chart_id = lastrowid db;
               row = \<lparr>col_id = chart_id, col_question = question, col_location = location,
                      col_timestamp = current_timestamp now, col_judgment = Some judgment,
                      col_confidence = Some confidence, col_chart_data = chart_data,
                      col_notes = Some notes, col_tags = tags_str,
                      col_category = Some category\<rparr>
           in Inr (chart_id, db\<lparr>sequence := chart_id, charts := charts db @ [row]\<rparr>))"

subsection \<open>get\_chart\<close>

text \<open>The dictionary \<^verbatim>\<open>get_chart\<close> returns.\<close>

record chart =
  chart_id :: int
  chart_question :: string
  chart_location :: string
  chart_timestamp :: string
  chart_judgment :: "string option"
  chart_confidence :: "int option"
  chart_data :: result
  chart_notes :: "string option"
  chart_tags :: "string list"
  chart_category :: "string option"

text \<open>The empty dictionary \<^verbatim>\<open>{}\<close> as a result.\<close>

definition empty_result :: result where
  "empty_result = \<lparr>res_judgment = None, res_confidence = None\<rparr>"

text \<open>
  Both texts are decoded under one \<^verbatim>\<open>try\<close>: when either raises JSONDecodeError, both
  values are reset (\<^verbatim>\<open>chart_data = {}\<close>, \<^verbatim>\<open>tags = []\<close>).
\<close>

definition decode_row :: "chart_row \<Rightarrow> result \<times> string list" where
  "decode_row row =
     (case loads_or empty_result (col_chart_data row) of
        Inl e \<Rightarrow> (empty_result, [])
      | Inr cd \<Rightarrow>
          (case loads_or [] (col_tags row) of
             Inl e \<Rightarrow> (empty_result, [])
           | Inr ts \<Rightarrow> (cd, ts)))"

text \<open>
  \<^verbatim>\<open>get_chart(chart_id)\<close>: \<^verbatim>\<open>SELECT ... WHERE id = ?\<close> and \<^verbatim>\<open>fetchone()\<close>. With the
  \<^verbatim>\<open>category\<close> column the row has nine fields and its category is returned; without it
  the row has eight and the category is \<^verbatim>\<open>'general'\<close>. No row gives \<^verbatim>\<open>None\<close>.
\<close>

definition get_chart :: "database \<Rightarrow> int \<Rightarrow> chart option" where
  "get_chart db cid =
     (case find (\<lambda>r. col_id r = cid) (charts db) of
        None \<Rightarrow> None
      | Some row \<Rightarrow>
          (let (cd, ts) = decode_row row
           in Some \<lparr>chart_id = cid, chart_question = col_question row,
                    chart_location = col_location row, chart_timestamp = col_timestamp row,
                    chart_judgment = col_judgment row, chart_confidence = col_confidence row,
                    chart_data = cd, chart_notes = col_notes row, chart_tags = ts,
                    chart_category = (if ''category'' \<in> set (columns db) then col_category row
                                else Some ''general'')\<rparr>))"

subsection \<open>get\_recent\_charts and get\_charts\_by\_date\_range\<close>

text \<open>
  \<^verbatim>\<open>ORDER BY timestamp\<close>: an insertion sort by the comparison \<open>le\<close>. Rows with equal
  timestamps keep their insertion order (SQLite leaves the order of ties open).
\<close>

fun insert_by :: "('a \<Rightarrow> 'a \<Rightarrow> bool) \<Rightarrow> 'a \<Rightarrow> 'a list \<Rightarrow> 'a list" where
  "insert_by le x [] = [x]"
| "insert_by le x (y # ys) = (if le x y then x # y # ys else y # insert_by le x ys)"

definition order_by :: "('a \<Rightarrow> 'a \<Rightarrow> bool) \<Rightarrow> 'a list \<Rightarrow> 'a list" where
  "order_by le xs = foldr (insert_by le) xs []"

definition timestamp_asc :: "chart_row \<Rightarrow> chart_row \<Rightarrow> bool" where
  "timestamp_asc a b = text_le (col_timestamp a) (col_timestamp b)"

definition timestamp_desc :: "chart_row \<Rightarrow> chart_row \<Rightarrow> bool" where
  "timestamp_desc a b = text_le (col_timestamp b) (col_timestamp a)"

text \<open>\<^verbatim>\<open>LIMIT ?\<close>: a negative limit means no limit.\<close>

definition sql_limit :: "int \<Rightarrow> 'a list \<Rightarrow> 'a list" where
  "sql_limit n xs = (if n < 0 then xs else take (nat n) xs)"

text \<open>
  The summaries of \<^verbatim>\<open>get_charts_by_date_range\<close>; those of \<^verbatim>\<open>get_recent_charts\<close> carry
  the key \<^verbatim>\<open>tags\<close> as well.
\<close>

record summary =
  sum_id :: int
  sum_question :: string
  sum_location :: string
  sum_timestamp :: string
  sum_judgment :: "string option"
  sum_confidence :: "int option"
  sum_category :: "string option"

record recent = summary +
  sum_tags :: "string list"

text \<open>
  The loop body of \<^verbatim>\<open>get_recent_charts\<close>. Here the tags are decoded with no handler of
  their own: a JSONDecodeError leaves the loop.
\<close>

definition recent_of_row :: "database \<Rightarrow> chart_row \<Rightarrow> error + recent" where
  "recent_of_row db row =
     (case loads_or [] (col_tags row) of
        Inl e \<Rightarrow> Inl e
      | Inr ts \<Rightarrow>
          Inr \<lparr>sum_id = col_id row, sum_question = col_question row,
               sum_location = col_location row, sum_timestamp = col_timestamp row,
               sum_judgment = col_judgment row, sum_confidence = col_confidence row,
               sum_category = (if ''category'' \<in> set (columns db) then col_category row
                               else Some ''general''),
               sum_tags = ts\<rparr>)"

fun collect :: "('a \<Rightarrow> error + 'b) \<Rightarrow> 'a list \<Rightarrow> error + 'b list" where
  "collect f [] = Inr []"
| "collect f (x # xs) =
     (case f x of
        Inl e \<Rightarrow> Inl e
      | Inr y \<Rightarrow> (case collect f xs of Inl e \<Rightarrow> Inl e | Inr ys \<Rightarrow> Inr (y # ys)))"

text \<open>
  \<^verbatim>\<open>get_recent_charts(limit)\<close>: the body of the \<^verbatim>\<open>try\<close>, and the function with its
  \<^verbatim>\<open>except Exception: return []\<close>.
\<close>

definition recent_charts_body :: "database \<Rightarrow> int \<Rightarrow> error + recent list" where
  "recent_charts_body db limit =
     collect (recent_of_row db) (sql_limit limit (order_by timestamp_desc (charts db)))"

definition get_recent_charts :: "database \<Rightarrow> int \<Rightarrow> recent list" where
  "get_recent_charts db limit =
     (case recent_charts_body db limit of Inl e \<Rightarrow> [] | Inr cs \<Rightarrow> cs)"

definition summary_of_row :: "database \<Rightarrow> chart_row \<Rightarrow> summary" where
  "summary_of_row db row =
     \<lparr>sum_id = col_id row, sum_question = col_question row, sum_location = col_location row,
      sum_timestamp = col_timestamp row, sum_judgment = col_judgment row,
      sum_confidence = col_confidence row,
      sum_category = (if ''category'' \<in> set (columns db) then col_category row
                      else Some ''general'')\<rparr>"

text \<open>\<^verbatim>\<open>WHERE timestamp BETWEEN ? AND ?\<close> on the two bound texts.\<close>

definition between :: "string \<Rightarrow> string \<Rightarrow> chart_row \<Rightarrow> bool" where
  "between lo hi row = (text_le lo (col_timestamp row) \<and> text_le (col_timestamp row) hi)"

text \<open>
  \<^verbatim>\<open>get_charts_by_date_range(start_date, end_date)\<close>: the bounds are bound as
  \<^verbatim>\<open>start_date.isoformat()\<close> and \<^verbatim>\<open>end_date.isoformat()\<close>.
\<close>

definition get_charts_by_date_range :: "database \<Rightarrow> datetime \<Rightarrow> datetime \<Rightarrow> summary list" where
  "get_charts_by_date_range db start_date end_date =
     map (summary_of_row db)
       (order_by timestamp_asc
          (filter (between (isoformat start_date) (isoformat end_date)) (charts db)))"

subsection \<open>get\_statistics\<close>

text \<open>\<^verbatim>\<open>SELECT k, COUNT(*) ... GROUP BY k\<close>: one pair for each value that occurs.\<close>

definition group_count :: "'k list \<Rightarrow> ('k \<times> nat) list" where
  "group_count ks = map (\<lambda>k. (k, count_list ks k)) (remdups ks)"

record statistics =
  total_charts :: nat
  this_month :: nat
  success_rate :: real
  categories :: "string option \<rightharpoonup> nat"
  total_judgments :: nat

text \<open>
  \<^verbatim>\<open>get_statistics()\<close> at the clock \<open>now\<close>. The judgments counted are those
  \<^verbatim>\<open>IN ("YES", "NO")\<close>, which SQLite reads as the two string literals, compared byte
  by byte; a NULL judgment is in neither group. The rate is
  \<^verbatim>\<open>(yes_count / total_judgments * 100) if total_judgments > 0 else 0\<close>; the model
  computes it in the reals, where Python rounds to a binary floating-point number.
\<close>

definition get_statistics :: "datetime \<Rightarrow> database \<Rightarrow> statistics" where
  "get_statistics now db =
     (let total = length (charts db);
          first_of_month = now\<lparr>day := 1, hour := 0, minute := 0, second := 0, microsecond := 0\<rparr>;
          month_count =
            length (filter (\<lambda>r. text_le (isoformat first_of_month) (col_timestamp r)) (charts db));
          judgment_counts =
            group_count
              (filter (\<lambda>j. j \<in> {Some ''YES'', Some ''NO''}) (map col_judgment (charts db)));
          total_judged = sum_list (map snd judgment_counts);
          yes_count = (case map_of judgment_counts (Some ''YES'') of Some n \<Rightarrow> n | None \<Rightarrow> 0);
          rate = (if total_judged > 0 then real yes_count / real total_judged * 100 else 0);
          cats = (if ''category'' \<in> set (columns db)
                  then map_of (group_count (map col_category (charts db)))
                  else if total > 0 then [Some ''general'' \<mapsto> total] else Map.empty)
      in \<lparr>total_charts = total, this_month = month_count, success_rate = rate,
          categories = cats, total_judgments = total_judged\<rparr>)"

section \<open>ChartWheelCanvas\<close>

subsection \<open>What the canvas is given\<close>

text \<open>
  The dictionaries the wheel reads. An aspect is indexed at \<^verbatim>\<open>planet1\<close>, \<^verbatim>\<open>planet2\<close> and
  \<^verbatim>\<open>aspect\<close> and asked for \<^verbatim>\<open>applying\<close> with \<^verbatim>\<open>get('applying', False)\<close>, so only that key
  may be missing. A planet is indexed at \<^verbatim>\<open>longitude\<close>.
\<close>

record aspect =
  planet1 :: string
  planet2 :: string
  aspect_type :: string
  applying :: "bool option"

record planet =
  longitude :: real

text \<open>
  The value under \<^verbatim>\<open>chart_data\<close>: the keys \<^verbatim>\<open>houses\<close>, \<^verbatim>\<open>planets\<close> and \<^verbatim>\<open>aspects\<close> are
  read with \<^verbatim>\<open>get\<close> and may be missing. \<open>planets\<close> keeps the order of the dictionary's
  items. The value can also be \<^verbatim>\<open>None\<close>.
\<close>

record payload =
  houses :: "real list option"
  planets :: "(string \<times> planet) list option"
  aspects :: "aspect list option"

datatype payload_value = NoneValue | Dict payload

text \<open>
  \<^verbatim>\<open>self.chart_data\<close>: \<^verbatim>\<open>None\<close>, or a dictionary, of which the wheel reads the key
  \<^verbatim>\<open>chart_data\<close> only (\<open>ChartDict None\<close> when the key is missing, which covers the empty
  dictionary).
\<close>

datatype widget_data = NoData | ChartDict "payload_value option"

subsection \<open>Painter calls\<close>

text \<open>
  The painter is modelled by the list of calls made on it, in order. A point is the
  widget's centre, or the point at a radius and an angle in degrees from it,
  \<^verbatim>\<open>center.x() + r * math.cos(math.radians(a))\<close> and
  \<^verbatim>\<open>center.y() + r * math.sin(math.radians(a))\<close>. \<open>Rect p dx dy w h\<close> is
  \<^verbatim>\<open>QRect(x - dx, y - dy, w, h)\<close> for the point \<open>p = (x, y)\<close>. Glyphs are written by their
  code points.
\<close>

datatype point = Center | Polar real real

datatype colour = Colour string | Lighter string nat

datatype pen_style = SolidLine | DashLine

datatype brush = NoBrush | Brush colour

datatype rect = WidgetRect | Rect point real real real real

datatype caption = Txt string | Degrees real

datatype command =
    SetRenderHint
  | SetPen colour nat pen_style
  | SetBrush brush
  | SetFont string nat bool
  | DrawLine point point
  | DrawEllipse rect
  | DrawText rect caption

fun is_draw :: "command \<Rightarrow> bool" where
  "is_draw (DrawLine p q) = True"
| "is_draw (DrawEllipse r) = True"
| "is_draw (DrawText r c) = True"
| "is_draw _ = False"

fun is_line :: "command \<Rightarrow> bool" where
  "is_line (DrawLine p q) = True"
| "is_line _ = False"

text \<open>
  A piece of painting code gives the calls it made and the exception that ended it, if
  any. \<open>run\<close> executes statements in order and stops at the first exception.
\<close>

type_synonym painting = "command list \<times> error option"

definition call :: "command \<Rightarrow> painting" where
  "call c = ([c], None)"

definition calls :: "command list \<Rightarrow> painting" where
  "calls cs = (cs, None)"

definition raise :: "error \<Rightarrow> painting" where
  "raise e = ([], Some e)"

fun seq :: "painting \<Rightarrow> painting \<Rightarrow> painting" where
  "seq (cs, Some e) q = (cs, Some e)"
| "seq (cs, None) (ds, r) = (cs @ ds, r)"

fun run :: "painting list \<Rightarrow> painting" where
  "run [] = ([], None)"
| "run (p # ps) = seq p (run ps)"

text \<open>
  \<^verbatim>\<open>painter.drawCircle(center, radius)\<close>: \<^verbatim>\<open>QPainter\<close> has no method of that name (its
  circles are drawn with \<^verbatim>\<open>drawEllipse\<close>) and the module defines none, so the attribute
  lookup raises AttributeError and nothing is drawn.
\<close>

definition drawCircle :: "real \<Rightarrow> painting" where
  "drawCircle radius = raise (AttributeError ''QPainter object has no attribute drawCircle'')"

subsection \<open>draw\_placeholder\<close>

definition draw_placeholder :: "int \<Rightarrow> int \<Rightarrow> painting" where
  "draw_placeholder width height =
     (let radius = min width height div 2 - 20
      in run [call (SetPen (Colour ''#ccc'') 2 SolidLine),
              drawCircle (of_int radius),
              call (SetPen (Colour ''#999'') 1 SolidLine),
              call (SetFont ''Arial'' 12 False),
              call (DrawText WidgetRect (Txt ''Chart Wheel\<newline>(Awaiting Chart Data)''))])"

subsection \<open>draw\_zodiac\_wheel, draw\_house\_cusps, draw\_planets\<close>

definition signs :: "(string \<times> string \<times> string) list" where
  "signs =
     [(''U+2648'', ''Aries'', ''#ff6b6b''), (''U+2649'', ''Taurus'', ''#4ecdc4''),
      (''U+264A'', ''Gemini'', ''#45b7d1''), (''U+264B'', ''Cancer'', ''#96ceb4''),
      (''U+264C'', ''Leo'', ''#feca57''), (''U+264D'', ''Virgo'', ''#48dbfb''),
      (''U+264E'', ''Libra'', ''#ff9ff3''), (''U+264F'', ''Scorpio'', ''#54a0ff''),
      (''U+2650'', ''Sagittarius'', ''#5f27cd''), (''U+2651'', ''Capricorn'', ''#00d2d3''),
      (''U+2652'', ''Aquarius'', ''#ff9f43''), (''U+2653'', ''Pisces'', ''#a55eea'')]"

definition draw_sign :: "real \<Rightarrow> real \<Rightarrow> nat \<times> string \<times> string \<times> string \<Rightarrow> command list" where
  "draw_sign outer_radius inner_radius entry =
     (case entry of (i, glyph, name, color) \<Rightarrow>
        let start_angle = real i * 30 - 90;
            text_angle = start_angle + 15;
            text_radius = (outer_radius + inner_radius) / 2
        in [SetPen (Colour color) 1 SolidLine,
            SetBrush (Brush (Lighter color 190)),
            DrawLine (Polar inner_radius start_angle) (Polar outer_radius start_angle),
            SetPen (Colour ''#333'') 2 SolidLine,
            SetFont ''Arial'' 16 True,
            DrawText (Rect (Polar text_radius text_angle) 15 15 30 30) (Txt glyph)])"

definition draw_zodiac_wheel :: "real \<Rightarrow> real \<Rightarrow> painting" where
  "draw_zodiac_wheel outer_radius inner_radius =
     run [calls (concat (map (draw_sign outer_radius inner_radius) (enumerate 0 signs))),
          call (SetPen (Colour ''#333'') 2 SolidLine),
          call (SetBrush NoBrush),
          drawCircle outer_radius,
          drawCircle inner_radius]"

definition draw_cusp :: "real \<Rightarrow> nat \<times> real \<Rightarrow> command list" where
  "draw_cusp radius entry =
     (case entry of (i, cusp) \<Rightarrow>
        let angle = cusp - 90;
            number_radius = radius * 0.9
        in [DrawLine Center (Polar radius angle),
            SetFont ''Arial'' 10 True,
            SetPen (Colour ''#333'') 1 SolidLine,
            DrawText (Rect (Polar number_radius (angle + 15)) 10 10 20 20) (Txt (dec (i + 1)))])"

definition draw_house_cusps :: "real \<Rightarrow> real list \<Rightarrow> command list" where
  "draw_house_cusps radius hs =
     SetPen (Colour ''#666'') 2 SolidLine # concat (map (draw_cusp radius) (enumerate 0 hs))"

definition planet_glyphs :: "(string \<times> string) list" where
  "planet_glyphs =
     [(''Sun'', ''U+2609''), (''Moon'', ''U+263D''), (''Mercury'', ''U+263F''),
      (''Venus'', ''U+2640''), (''Mars'', ''U+2642''), (''Jupiter'', ''U+2643''),
      (''Saturn'', ''U+2644'')]"

definition planet_colors :: "(string \<times> string) list" where
  "planet_colors =
     [(''Sun'', ''#ff6b35''), (''Moon'', ''#a8dadc''), (''Mercury'', ''#457b9d''),
      (''Venus'', ''#e63946''), (''Mars'', ''#f77f00''), (''Jupiter'', ''#fcbf49''),
      (''Saturn'', ''#003566'')]"

definition draw_planet :: "real \<Rightarrow> string \<times> planet \<Rightarrow> command list" where
  "draw_planet radius item =
     (case item of (planet_name, planet_data) \<Rightarrow>
        (case map_of planet_glyphs planet_name of
           None \<Rightarrow> []
         | Some glyph \<Rightarrow>
             let angle = longitude planet_data - 90;
                 color = (case map_of planet_colors planet_name of
                            Some c \<Rightarrow> c | None \<Rightarrow> ''#333333'')
             in [SetPen (Colour color) 2 SolidLine,
                 SetBrush (Brush (Lighter color 180)),
                 DrawEllipse (Rect (Polar radius angle) 12 12 24 24),
                 SetPen (Colour color) 1 SolidLine,
                 DrawText (Rect (Polar radius angle) 12 12 24 24) (Txt glyph),
                 SetFont ''Arial'' 8 False,
                 DrawText (Rect (Polar (radius + 25) angle) 20 10 40 20)
                   (Degrees (longitude planet_data)),
                 SetFont ''Arial'' 14 True]))"

definition draw_planets :: "real \<Rightarrow> (string \<times> planet) list \<Rightarrow> command list" where
  "draw_planets radius ps = SetFont ''Arial'' 14 True # concat (map (draw_planet radius) ps)"

subsection \<open>draw\_aspects\<close>

definition aspect_colors :: "(string \<times> string) list" where
  "aspect_colors =
     [(''Conjunction'', ''#333333''), (''Sextile'', ''#4CAF50''), (''Square'', ''#f44336''),
      (''Trine'', ''#2196F3''), (''Opposition'', ''#ff9800'')]"

text \<open>\<^verbatim>\<open>aspect.get('applying', False)\<close>, as a condition.\<close>

definition get_applying :: "aspect \<Rightarrow> bool" where
  "get_applying a = (case applying a of Some b \<Rightarrow> b | None \<Rightarrow> False)"

text \<open>The body of the loop: what one aspect adds to the painter's calls.\<close>

definition draw_aspect :: "real \<Rightarrow> (string \<times> planet) list \<Rightarrow> aspect \<Rightarrow> command list" where
  "draw_aspect radius ps a =
     (if \<not> get_applying a then []
      else
        (case (map_of ps (planet1 a), map_of ps (planet2 a)) of
           (Some p1, Some p2) \<Rightarrow>
             let angle1 = longitude p1 - 90;
                 angle2 = longitude p2 - 90;
                 color = (case map_of aspect_colors (aspect_type a) of
                            Some c \<Rightarrow> c | None \<Rightarrow> ''#333333'')
             in [SetPen (Colour color) 1 DashLine,
                 DrawLine (Polar radius angle1) (Polar radius angle2)]
         | _ \<Rightarrow> []))"

fun draw_aspects :: "real \<Rightarrow> aspect list \<Rightarrow> (string \<times> planet) list \<Rightarrow> command list" where
  "draw_aspects radius [] ps = []"
| "draw_aspects radius (a # as) ps = draw_aspect radius ps a @ draw_aspects radius as ps"

subsection \<open>draw\_chart\_wheel and paintEvent\<close>

text \<open>
  \<^verbatim>\<open>draw_chart_wheel\<close>: the pen and the brush of the background, then
  \<^verbatim>\<open>painter.drawCircle\<close>, then the zodiac wheel, then the houses, planets and aspects
  that the payload holds. \<^verbatim>\<open>self.chart_data['chart_data'].get(...)\<close> raises
  AttributeError when the value is \<^verbatim>\<open>None\<close>.
\<close>

definition draw_chart_wheel :: "int \<Rightarrow> int \<Rightarrow> payload_value \<Rightarrow> painting" where
  "draw_chart_wheel width height v =
     (let outer_radius = real_of_int (min width height div 2 - 30);
          house_radius = outer_radius * 0.75;
          planet_radius = outer_radius * 0.85
      in run [call (SetPen (Colour ''#f0f0f0'') 1 SolidLine),
              call (SetBrush (Brush (Colour ''#fafafa''))),
              drawCircle outer_radius,
              draw_zodiac_wheel outer_radius house_radius,
              (case v of
                 NoneValue \<Rightarrow> raise (AttributeError ''NoneType object has no attribute get'')
               | Dict d \<Rightarrow>
                   let chart_houses = (case houses d of Some hs \<Rightarrow> hs | None \<Rightarrow> []);
                       chart_planets = (case planets d of Some ps \<Rightarrow> ps | None \<Rightarrow> []);
                       chart_aspects = (case aspects d of Some as \<Rightarrow> as | None \<Rightarrow> [])
                   in calls
                        ((if chart_houses \<noteq> []
                          then draw_house_cusps house_radius chart_houses else []) @
                         (if chart_planets \<noteq> []
                          then draw_planets planet_radius chart_planets else []) @
                         (if chart_aspects \<noteq> []
                          then draw_aspects (planet_radius * 0.7) chart_aspects chart_planets
                          else [])))])"

text \<open>
  \<^verbatim>\<open>paintEvent\<close>: the placeholder when there is no dictionary or no key
  \<^verbatim>\<open>chart_data\<close>, outside any handler; else the wheel under \<^verbatim>\<open>try\<close>, and when that
  raises, the handler calls \<^verbatim>\<open>draw_placeholder\<close>, whose own exception leaves
  \<^verbatim>\<open>paintEvent\<close>.
\<close>

definition paintEvent :: "int \<Rightarrow> int \<Rightarrow> widget_data \<Rightarrow> painting" where
  "paintEvent width height data =
     seq (call SetRenderHint)
       (case data of
          NoData \<Rightarrow> draw_placeholder width height
        | ChartDict None \<Rightarrow> draw_placeholder width height
        | ChartDict (Some v) \<Rightarrow>
            (case draw_chart_wheel width height v of
               (cmds, None) \<Rightarrow> (cmds, None)
             | (cmds, Some e) \<Rightarrow> seq (cmds, None) (draw_placeholder width height)))"

section \<open>Specification-side definitions and sample values\<close>

text \<open>The row that \<^const>\<open>save_chart\<close> inserts.\<close>

definition saved_row ::
  "datetime \<Rightarrow> database \<Rightarrow> string \<Rightarrow> string \<Rightarrow> result \<Rightarrow> string \<Rightarrow> string list option \<Rightarrow> string
     \<Rightarrow> chart_row" where
  "saved_row now db q l r n t c =
     \<lparr>col_id = lastrowid db, col_question = q, col_location = l,
      col_timestamp = current_timestamp now,
      col_judgment = Some (case res_judgment r of Some j \<Rightarrow> j | None \<Rightarrow> ''UNKNOWN''),
      col_confidence = Some (case res_confidence r of Some k \<Rightarrow> k | None \<Rightarrow> 0),
      col_chart_data = Json r, col_notes = Some n,
      col_tags = (case t of Some (x # xs) \<Rightarrow> Json (x # xs) | _ \<Rightarrow> Json []),
      col_category = Some c\<rparr>"

text \<open>
  The success rate in the words of the specification: the charts judged exactly YES over
  the charts judged exactly YES or NO, times 100, and 0 when there are none.
\<close>

definition yes_count :: "database \<Rightarrow> nat" where
  "yes_count db = length (filter (\<lambda>r. col_judgment r = Some ''YES'') (charts db))"

definition no_count :: "database \<Rightarrow> nat" where
  "no_count db = length (filter (\<lambda>r. col_judgment r = Some ''NO'') (charts db))"

definition spec_success_rate :: "database \<Rightarrow> real" where
  "spec_success_rate db =
     (if yes_count db + no_count db = 0 then 0
      else real (yes_count db) / real (yes_count db + no_count db) * 100)"

text \<open>Sample values: an instant, and the result of the specification's first scenario.\<close>

definition noon :: datetime where
  "noon = \<lparr>year = 2025, month = 6, day = 6, hour = 12, minute = 0, second = 0, microsecond = 0\<rparr>"

definition job_result :: result where
  "job_result = \<lparr>res_judgment = Some ''YES'', res_confidence = Some 82\<rparr>"

text \<open>Sample tables: one with the current schema, and the same rows in a legacy table.\<close>

definition sample_row :: "int \<Rightarrow> string \<Rightarrow> string \<Rightarrow> chart_row" where
  "sample_row i ts j =
     \<lparr>col_id = i, col_question = ''Q'', col_location = ''L'', col_timestamp = ts,
      col_judgment = Some j, col_confidence = Some 50, col_chart_data = Json empty_result,
      col_notes = Some '''', col_tags = Json [], col_category = Some ''career''\<rparr>"

definition mixed_database :: database where
  "mixed_database =
     \<lparr>has_category = True, sequence = 3,
      charts = [sample_row 1 ''2025-06-01 10:00:00'' ''YES'',
                sample_row 2 ''2025-06-02 10:00:00'' ''NO'',
                sample_row 3 ''2025-06-03 10:00:00'' ''UNCLEAR'']\<rparr>"

definition legacy_database :: database where
  "legacy_database = mixed_database\<lparr>has_category := False\<rparr>"

text \<open>Sample values for the wheel.\<close>

definition empty_payload :: payload where
  "empty_payload = \<lparr>houses = None, planets = None, aspects = None\<rparr>"

definition sun_moon :: "(string \<times> planet) list" where
  "sun_moon = [(''Sun'', \<lparr>longitude = 95.4\<rparr>), (''Moon'', \<lparr>longitude = 185.4\<rparr>)]"

definition square_applying :: aspect where
  "square_applying =
     \<lparr>planet1 = ''Sun'', planet2 = ''Moon'', aspect_type = ''Square'', applying = Some True\<rparr>"

definition trine_separating :: aspect where
  "trine_separating =
     \<lparr>planet1 = ''Sun'', planet2 = ''Moon'', aspect_type = ''Trine'', applying = Some False\<rparr>"

definition sextile_unflagged :: aspect where
  "sextile_unflagged =
     \<lparr>planet1 = ''Sun'', planet2 = ''Moon'', aspect_type = ''Sextile'', applying = None\<rparr>"

definition square_to_pluto :: aspect where
  "square_to_pluto =
     \<lparr>planet1 = ''Sun'', planet2 = ''Pluto'', aspect_type = ''Square'', applying = Some True\<rparr>"

text \<open>The caption of the placeholder, and the exception of a missing painter method.\<close>

definition caption_text :: command where
  "caption_text = DrawText WidgetRect (Txt ''Chart Wheel\<newline>(Awaiting Chart Data)'')"

definition no_drawCircle :: error where
  "no_drawCircle = AttributeError ''QPainter object has no attribute drawCircle''"

section \<open>The store: saving and reading back\<close>

lemma fold_max_ge_init: "(s::int) \<le> fold max xs s"
  by (induction xs arbitrary: s) (auto intro: order_trans [OF max.cobounded2])

lemma fold_max_ge_elem: "x \<in> set xs \<Longrightarrow> x \<le> fold max xs (s::int)"
proof (induction xs arbitrary: s)
  case Nil
  then show ?case by simp
next
  case (Cons y ys)
  show ?case
  proof (cases "x = y")
    case True
    have "y \<le> max y s" by simp
    also have "\<dots> \<le> fold max ys (max y s)" by (rule fold_max_ge_init)
    finally show ?thesis using True by simp
  next
    case False
    with Cons show ?thesis by simp
  qed
qed

text \<open>The id of an insert is larger than every id in the table.\<close>

lemma lastrowid_fresh: "r \<in> set (charts db) \<Longrightarrow> col_id r < lastrowid db"
  using fold_max_ge_elem [of "col_id r" "map col_id (charts db)" "sequence db"]
  by (simp add: lastrowid_def)

lemma find_append_new: "\<forall>x\<in>set xs. \<not> P x \<Longrightarrow> P y \<Longrightarrow> find P (xs @ [y]) = Some y"
  by (induction xs) auto

lemma save_chart_current:
  "has_category db \<Longrightarrow>
   save_chart now db q l r n t c =
     Inr (lastrowid db,
          db\<lparr>sequence := lastrowid db, charts := charts db @ [saved_row now db q l r n t c]\<rparr>)"
  by (simp add: save_chart_def saved_row_def Let_def)

text \<open>On a table without the \<^verbatim>\<open>category\<close> column the INSERT fails.\<close>

lemma save_chart_legacy:
  "\<not> has_category db \<Longrightarrow>
   save_chart now db q l r n t c =
     Inl (OperationalError ''table charts has no column named category'')"
  by (simp add: save_chart_def Let_def)

lemma get_chart_after_save:
  assumes "has_category db"
  shows "get_chart
           (db\<lparr>sequence := lastrowid db, charts := charts db @ [saved_row now db q l r n t c]\<rparr>)
           (lastrowid db) =
     Some \<lparr>chart_id = lastrowid db, chart_question = q, chart_location = l,
           chart_timestamp = current_timestamp now,
           chart_judgment = Some (case res_judgment r of Some j \<Rightarrow> j | None \<Rightarrow> ''UNKNOWN''),
           chart_confidence = Some (case res_confidence r of Some k \<Rightarrow> k | None \<Rightarrow> 0),
           chart_data = r, chart_notes = Some n,
           chart_tags = (case t of Some ts \<Rightarrow> ts | None \<Rightarrow> []),
           chart_category = Some c\<rparr>"
proof -
  let ?row = "saved_row now db q l r n t c"
  have fresh: "\<forall>x\<in>set (charts db). \<not> col_id x = lastrowid db"
    using lastrowid_fresh by fastforce
  have "find (\<lambda>x. col_id x = lastrowid db) (charts db @ [?row]) = Some ?row"
    by (rule find_append_new [OF fresh]) (simp add: saved_row_def)
  moreover have "decode_row ?row = (r, case t of Some ts \<Rightarrow> ts | None \<Rightarrow> [])"
    by (simp add: decode_row_def saved_row_def split: option.splits list.splits)
  ultimately show ?thesis
    using assms by (simp add: get_chart_def columns_def saved_row_def)
qed





text \<open>
  On a table with the current schema a saved chart is read back under the id that
  \<^const>\<open>save_chart\<close> returned, with the question, location, judgment and confidence
  that were saved.
\<close>

lemma roundtrip_on_current_schema:
  assumes "has_category db"
    and "res_judgment r = Some j" and "res_confidence r = Some k"
  shows "\<exists>cid db' ch. save_chart now db q l r n t c = Inr (cid, db') \<and>
           get_chart db' cid = Some ch \<and> chart_id ch = cid \<and>
           chart_question ch = q \<and> chart_location ch = l \<and>
           chart_judgment ch = Some j \<and> chart_confidence ch = Some k"
  using assms save_chart_current [of db now q l r n t c]
    get_chart_after_save [of db now q l r n t c]
  by simp

text \<open>
  C2 fails on the code. A charts table created by an earlier version, without the
  \<^verbatim>\<open>category\<close> column, is kept as it is by \<^const>\<open>init_database\<close> and read by
  \<^const>\<open>get_chart\<close>, which probes the columns and answers \<^verbatim>\<open>general\<close>. On that table
  \<^const>\<open>save_chart\<close>, which does not probe, fails for the valid inputs of the
  specification's first scenario: the INSERT names the missing column. No id is
  returned and no row is stored.
\<close>

theorem save_chart_fails_on_legacy_table:
  "init_database (Some legacy_database) = legacy_database \<and>
   \<not> has_category legacy_database \<and>
   map_option chart_category (get_chart legacy_database 1) = Some (Some ''general'') \<and>
   save_chart noon legacy_database ''Will I get the job?'' ''London, England'' job_result
     '''' None ''general'' =
     Inl (OperationalError ''table charts has no column named category'')"
  by (simp add: legacy_database_def mixed_database_def sample_row_def save_chart_def Let_def
      get_chart_def decode_row_def columns_def empty_result_def)

text \<open>
  C8. For an id that no row of the table has, \<^const>\<open>get_chart\<close> returns \<open>None\<close>: the
  absence is a value of the result type.
\<close>

theorem get_chart_missing:
  assumes "cid \<notin> col_id ` set (charts db)"
  shows "get_chart db cid = None"
proof -
  from assms have "find (\<lambda>r. col_id r = cid) (charts db) = None"
    by (auto simp: find_None_iff)
  then show ?thesis by (simp add: get_chart_def)
qed

theorem get_chart_missing_witness:
  "(7::int) \<notin> col_id ` set (charts new_database) \<and> get_chart new_database 7 = None"
proof -
  have h: "(7::int) \<notin> col_id ` set (charts new_database)" by (simp add: new_database_def)
  from get_chart_missing [OF h] show ?thesis using h by simp
qed

text \<open>
  C10. On a table with the current schema, when the result has no key \<^verbatim>\<open>judgment\<close>
  the inserted row stores \<^verbatim>\<open>UNKNOWN\<close>, when it has no key \<^verbatim>\<open>confidence\<close> the row stores
  0, and \<^const>\<open>get_chart\<close> returns these values under the new id.
\<close>

theorem save_chart_defaults:
  assumes "has_category db"
  shows "\<exists>cid db' ch. save_chart now db q l r n t c = Inr (cid, db') \<and>
           get_chart db' cid = Some ch \<and>
           (res_judgment r = None \<longrightarrow>
              col_judgment (last (charts db')) = Some ''UNKNOWN'' \<and>
              chart_judgment ch = Some ''UNKNOWN'') \<and>
           (res_confidence r = None \<longrightarrow>
              col_confidence (last (charts db')) = Some 0 \<and> chart_confidence ch = Some 0)"
  using assms save_chart_current [of db now q l r n t c]
    get_chart_after_save [of db now q l r n t c]
  by (simp add: saved_row_def)

theorem save_chart_defaults_witness:
  "has_category new_database \<and> res_judgment empty_result = None \<and>
   res_confidence empty_result = None \<and>
   (\<exists>cid db' ch.
      save_chart noon new_database ''Q'' ''L'' empty_result '''' None ''general'' =
        Inr (cid, db') \<and>
      get_chart db' cid = Some ch \<and>
      col_judgment (last (charts db')) = Some ''UNKNOWN'' \<and>
      chart_judgment ch = Some ''UNKNOWN'' \<and>
      col_confidence (last (charts db')) = Some 0 \<and> chart_confidence ch = Some 0)"
proof -
  have h: "has_category new_database" by (simp add: new_database_def)
  have e: "res_judgment empty_result = None" "res_confidence empty_result = None"
    by (simp_all add: empty_result_def)
  from save_chart_defaults [OF h, of noon "''Q''" "''L''" empty_result "''''" None "''general''"]
  show ?thesis using h e by auto
qed

section \<open>The store: statistics\<close>

lemma group_count_total: "sum_list (map snd (group_count ks)) = length ks"
proof -
  have "sum_list (map snd (group_count ks)) = sum_list (map (count_list ks) (remdups ks))"
    by (simp add: group_count_def comp_def)
  also have "\<dots> = sum (count_list ks) (set ks)"
    using sum_list_distinct_conv_sum_set [of "remdups ks" "count_list ks"] by simp
  also have "\<dots> = length ks"
    by (rule sum_count_set) simp_all
  finally show ?thesis .
qed

lemma map_of_group_count:
  "map_of (group_count ks) k = (if k \<in> set ks then Some (count_list ks k) else None)"
  by (simp add: group_count_def map_of_map_restrict restrict_map_def)

lemma judged_length:
  "length (filter (\<lambda>j. j \<in> {Some ''YES'', Some ''NO''}) (map col_judgment rows)) =
     length (filter (\<lambda>r. col_judgment r = Some ''YES'') rows) +
     length (filter (\<lambda>r. col_judgment r = Some ''NO'') rows)"
  by (induction rows) auto

lemma judged_yes:
  "count_list (filter (\<lambda>j. j \<in> {Some ''YES'', Some ''NO''}) (map col_judgment rows))
     (Some ''YES'') =
   length (filter (\<lambda>r. col_judgment r = Some ''YES'') rows)"
  by (induction rows) auto

lemma yes_lookup:
  "(case map_of
           (group_count
              (filter (\<lambda>j. j \<in> {Some ''YES'', Some ''NO''}) (map col_judgment rows)))
           (Some ''YES'') of
      Some n \<Rightarrow> n | None \<Rightarrow> 0) =
   length (filter (\<lambda>r. col_judgment r = Some ''YES'') rows)"
proof -
  let ?js = "filter (\<lambda>j. j \<in> {Some ''YES'', Some ''NO''}) (map col_judgment rows)"
  show ?thesis
  proof (cases "Some ''YES'' \<in> set ?js")
    case True
    then show ?thesis by (simp only: map_of_group_count judged_yes if_True option.case)
  next
    case False
    then have "count_list ?js (Some ''YES'') = 0"
      by (simp only: count_list_0_iff not_False_eq_True)
    with False show ?thesis
      by (simp only: map_of_group_count judged_yes if_False option.case)
  qed
qed

lemma total_judgments_eq:
  "total_judgments (get_statistics now db) = yes_count db + no_count db"
  unfolding get_statistics_def Let_def
  by (simp only: statistics.simps group_count_total judged_length yes_count_def no_count_def)

lemma success_rate_eq: "success_rate (get_statistics now db) = spec_success_rate db"
proof -
  have "success_rate (get_statistics now db) =
      (if yes_count db + no_count db > 0
       then real (yes_count db) / real (yes_count db + no_count db) * 100 else 0)"
    unfolding get_statistics_def Let_def
    by (simp only: statistics.simps group_count_total judged_length yes_lookup
        yes_count_def no_count_def)
  then show ?thesis by (simp add: spec_success_rate_def)
qed

text \<open>
  C4. The success rate that \<^const>\<open>get_statistics\<close> returns is the rate of the
  specification (charts judged exactly YES over charts judged exactly YES or NO, times
  100; other judgments enter neither count), it is 0 when no chart is judged YES or NO,
  and it lies between 0 and 100. The rate is computed in the reals.
\<close>

theorem success_rate_spec:
  "success_rate (get_statistics now db) = spec_success_rate db \<and>
   total_judgments (get_statistics now db) = yes_count db + no_count db \<and>
   (yes_count db + no_count db = 0 \<longrightarrow> success_rate (get_statistics now db) = 0) \<and>
   0 \<le> success_rate (get_statistics now db) \<and> success_rate (get_statistics now db) \<le> 100"
proof -
  have le: "real (yes_count db) \<le> real (yes_count db + no_count db)" by simp
  have "0 \<le> spec_success_rate db" by (simp add: spec_success_rate_def)
  moreover have "spec_success_rate db \<le> 100"
  proof (cases "yes_count db + no_count db = 0")
    case True
    then show ?thesis by (simp add: spec_success_rate_def)
  next
    case False
    then have "0 < yes_count db + no_count db" by simp
    then have pos: "0 < real (yes_count db + no_count db)" by (simp only: of_nat_0_less_iff)
    have "real (yes_count db) / real (yes_count db + no_count db) \<le> 1"
      using le pos by (simp only: divide_le_eq_1_pos)
    then have "real (yes_count db) / real (yes_count db + no_count db) * 100 \<le> 1 * 100"
      by (rule mult_right_mono) simp
    moreover have "spec_success_rate db =
        real (yes_count db) / real (yes_count db + no_count db) * 100"
      using False by (simp only: spec_success_rate_def if_False)
    ultimately show ?thesis by simp
  qed
  moreover have "yes_count db + no_count db = 0 \<longrightarrow> spec_success_rate db = 0"
    by (simp add: spec_success_rate_def)
  ultimately show ?thesis by (simp only: success_rate_eq total_judgments_eq simp_thms)
qed

theorem success_rate_spec_witness:
  "yes_count new_database + no_count new_database = 0 \<and>
   success_rate (get_statistics noon new_database) = 0 \<and>
   spec_success_rate mixed_database = 50 \<and>
   success_rate (get_statistics noon mixed_database) = 50"
proof -
  have z: "yes_count new_database + no_count new_database = 0"
    by (simp add: yes_count_def no_count_def new_database_def)
  have s: "spec_success_rate mixed_database = 50"
    by (simp add: spec_success_rate_def yes_count_def no_count_def mixed_database_def
        sample_row_def)
  from success_rate_spec [of noon new_database] success_rate_spec [of noon mixed_database] z s
  show ?thesis by simp
qed

section \<open>The store: recent charts and date ranges\<close>

lemma collect_all2: "collect f xs = Inr ys \<Longrightarrow> list_all2 (\<lambda>x y. f x = Inr y) xs ys"
proof (induction xs arbitrary: ys)
  case Nil
  then show ?case by simp
next
  case (Cons x xs)
  from Cons.prems obtain y ys' where fx: "f x = Inr y" and rest: "collect f xs = Inr ys'"
    and ys: "ys = y # ys'"
    by (auto split: sum.splits)
  from Cons.IH [OF rest] fx ys show ?case by simp
qed

lemma all2_map_eq:
  "list_all2 P xs ys \<Longrightarrow> (\<And>x y. P x y \<Longrightarrow> h y = g x) \<Longrightarrow> map h ys = map g xs"
  by (induction rule: list_all2_induct) simp_all

lemma collect_error: "collect f xs = Inl e \<Longrightarrow> \<exists>x\<in>set xs. f x = Inl e"
proof (induction xs)
  case Nil
  then show ?case by simp
next
  case (Cons x xs)
  then show ?case by (cases "f x"; cases "collect f xs") auto
qed

lemma collect_total: "\<forall>x\<in>set xs. \<exists>y. f x = Inr y \<Longrightarrow> \<exists>ys. collect f xs = Inr ys"
proof (induction xs)
  case Nil
  then show ?case by simp
next
  case (Cons x xs)
  then obtain y ys where "f x = Inr y" "collect f xs = Inr ys" by auto
  then show ?case by simp
qed

lemma recent_of_row_fields:
  "recent_of_row db row = Inr c \<Longrightarrow>
   sum_category c = (if has_category db then col_category row else Some ''general'') \<and>
   sum_id c = col_id row"
  by (cases "loads_or [] (col_tags row)") (auto simp: recent_of_row_def columns_def)

text \<open>The only exception of the loop body is the JSONDecodeError of an undecodable text.\<close>

lemma recent_of_row_error:
  "recent_of_row db row = Inl e \<Longrightarrow> e = JSONDecodeError \<and> col_tags row = NotJson"
  by (cases "col_tags row") (simp_all add: recent_of_row_def)

lemma recent_of_row_ok: "col_tags row \<noteq> NotJson \<Longrightarrow> \<exists>c. recent_of_row db row = Inr c"
  by (cases "col_tags row") (simp_all add: recent_of_row_def)

lemma set_insert_by: "set (insert_by le x xs) = insert x (set xs)"
  by (induction xs) auto

lemma set_order_by: "set (order_by le xs) = set xs"
  by (induction xs) (simp_all add: order_by_def set_insert_by)

lemma set_sql_limit: "set (sql_limit n xs) \<subseteq> set xs"
  by (auto simp: sql_limit_def dest: in_set_takeD)

lemma recent_body_fields:
  assumes "recent_charts_body db limit = Inr cs"
  shows "map sum_category cs =
           map (\<lambda>r. if has_category db then col_category r else Some ''general'')
             (sql_limit limit (order_by timestamp_desc (charts db)))"
    and "map sum_id cs = map col_id (sql_limit limit (order_by timestamp_desc (charts db)))"
proof -
  let ?rows = "sql_limit limit (order_by timestamp_desc (charts db))"
  from assms have "collect (recent_of_row db) ?rows = Inr cs"
    by (simp add: recent_charts_body_def)
  then have all2: "list_all2 (\<lambda>x y. recent_of_row db x = Inr y) ?rows cs"
    by (rule collect_all2)
  show "map sum_category cs =
           map (\<lambda>r. if has_category db then col_category r else Some ''general'') ?rows"
    by (rule all2_map_eq [OF all2]) (simp add: recent_of_row_fields)
  show "map sum_id cs = map col_id ?rows"
    by (rule all2_map_eq [OF all2]) (simp add: recent_of_row_fields)
qed

lemma recent_body_no_structural_error:
  "recent_charts_body db limit \<noteq> Inl (OperationalError m)"
proof
  assume "recent_charts_body db limit = Inl (OperationalError m)"
  then obtain x where "recent_of_row db x = Inl (OperationalError m)"
    unfolding recent_charts_body_def by (blast dest: collect_error)
  then have "OperationalError m = JSONDecodeError" by (blast dest: recent_of_row_error)
  then show False by simp
qed

lemma recent_body_total:
  assumes "\<forall>r\<in>set (charts db). col_tags r \<noteq> NotJson"
  shows "\<exists>cs. recent_charts_body db limit = Inr cs"
proof -
  let ?rows = "sql_limit limit (order_by timestamp_desc (charts db))"
  have "set ?rows \<subseteq> set (charts db)"
    using set_sql_limit [of limit "order_by timestamp_desc (charts db)"]
    by (simp add: set_order_by)
  with assms have "\<forall>r\<in>set ?rows. \<exists>c. recent_of_row db r = Inr c"
    by (blast intro: recent_of_row_ok)
  then show ?thesis unfolding recent_charts_body_def by (rule collect_total)
qed

text \<open>
  C5. On a table without the \<^verbatim>\<open>category\<close> column every row that
  \<^const>\<open>get_recent_charts\<close> returns carries the category \<^verbatim>\<open>general\<close>; the body of the
  function never fails with the OperationalError of a missing column (and whatever it
  raises is caught, the function returning a list); and when the stored tags decode, the
  function returns the selected rows in order, each with \<^verbatim>\<open>general\<close> on a legacy table
  and with its stored category on a table with the current schema.
\<close>

theorem recent_charts_category:
  "(\<not> has_category db \<longrightarrow>
      (\<forall>c\<in>set (get_recent_charts db limit). sum_category c = Some ''general'')) \<and>
   (\<forall>m. recent_charts_body db limit \<noteq> Inl (OperationalError m)) \<and>
   ((\<forall>r\<in>set (charts db). col_tags r \<noteq> NotJson) \<longrightarrow>
      map sum_id (get_recent_charts db limit) =
        map col_id (sql_limit limit (order_by timestamp_desc (charts db))) \<and>
      map sum_category (get_recent_charts db limit) =
        map (\<lambda>r. if has_category db then col_category r else Some ''general'')
          (sql_limit limit (order_by timestamp_desc (charts db))))"
proof (intro conjI impI allI)
  assume legacy: "\<not> has_category db"
  show "\<forall>c\<in>set (get_recent_charts db limit). sum_category c = Some ''general''"
  proof (cases "recent_charts_body db limit")
    case (Inl e)
    then show ?thesis by (simp add: get_recent_charts_def)
  next
    case (Inr cs)
    from recent_body_fields(1) [OF Inr] legacy
    have "map sum_category cs =
        map (\<lambda>r. Some ''general'') (sql_limit limit (order_by timestamp_desc (charts db)))"
      by simp
    then have "set (map sum_category cs) \<subseteq> {Some ''general''}"
      by (simp only: set_map) blast
    then have "\<forall>c\<in>set cs. sum_category c = Some ''general''" by auto
    with Inr show ?thesis by (simp add: get_recent_charts_def)
  qed
next
  fix m
  show "recent_charts_body db limit \<noteq> Inl (OperationalError m)"
    by (rule recent_body_no_structural_error)
next
  assume ok: "\<forall>r\<in>set (charts db). col_tags r \<noteq> NotJson"
  from recent_body_total [OF ok] obtain cs where cs: "recent_charts_body db limit = Inr cs"
    by blast
  then have g: "get_recent_charts db limit = cs" by (simp add: get_recent_charts_def)
  show "map sum_id (get_recent_charts db limit) =
        map col_id (sql_limit limit (order_by timestamp_desc (charts db)))"
    using recent_body_fields(2) [OF cs] g by simp
  show "map sum_category (get_recent_charts db limit) =
        map (\<lambda>r. if has_category db then col_category r else Some ''general'')
          (sql_limit limit (order_by timestamp_desc (charts db)))"
    using recent_body_fields(1) [OF cs] g by simp
qed

theorem recent_charts_category_witness:
  "\<not> has_category legacy_database \<and>
   map sum_id (get_recent_charts legacy_database 2) = [3, 2] \<and>
   map sum_category (get_recent_charts legacy_database 2) = [Some ''general'', Some ''general''] \<and>
   has_category mixed_database \<and>
   map sum_category (get_recent_charts mixed_database 2) = [Some ''career'', Some ''career'']"
proof -
  have l: "\<not> has_category legacy_database"
    by (simp add: legacy_database_def mixed_database_def)
  have m: "has_category mixed_database" by (simp add: mixed_database_def)
  have ok: "\<forall>r\<in>set (charts legacy_database). col_tags r \<noteq> NotJson"
    "\<forall>r\<in>set (charts mixed_database). col_tags r \<noteq> NotJson"
    by (simp_all add: legacy_database_def mixed_database_def sample_row_def)
  have ids: "map col_id (sql_limit 2 (order_by timestamp_desc (charts legacy_database))) = [3, 2]"
    by (simp add: sql_limit_def order_by_def timestamp_desc_def legacy_database_def
        mixed_database_def sample_row_def)
  have cl: "map (\<lambda>r. if has_category legacy_database then col_category r else Some ''general'')
      (sql_limit 2 (order_by timestamp_desc (charts legacy_database))) =
      [Some ''general'', Some ''general'']"
    by (simp add: sql_limit_def order_by_def timestamp_desc_def legacy_database_def
        mixed_database_def sample_row_def)
  have cm: "map (\<lambda>r. if has_category mixed_database then col_category r else Some ''general'')
      (sql_limit 2 (order_by timestamp_desc (charts mixed_database))) =
      [Some ''career'', Some ''career'']"
    by (simp add: sql_limit_def order_by_def timestamp_desc_def mixed_database_def
        sample_row_def)
  from recent_charts_category [of legacy_database 2] recent_charts_category [of mixed_database 2]
  show ?thesis using l m ok ids cl cm by simp
qed

text \<open>
  What \<^const>\<open>get_charts_by_date_range\<close> selects: the rows whose timestamp text lies
  between the two \<^verbatim>\<open>isoformat()\<close> texts in the byte order of TEXT values.
\<close>

lemma date_range_ids:
  "set (map sum_id (get_charts_by_date_range db s e)) =
     col_id ` {r \<in> set (charts db). between (isoformat s) (isoformat e) r}"
  by (auto simp: get_charts_by_date_range_def set_order_by summary_of_row_def)

lemma dec_digit: "n < 10 \<Longrightarrow> dec n = [digit_char n]"
  by (simp add: dec.simps)

lemma pad2_small: "n < 10 \<Longrightarrow> pad 2 n = [CHR ''0'', digit_char n]"
  by (simp add: pad_def dec_digit)

lemma dec_two: "10 \<le> n \<Longrightarrow> n < 100 \<Longrightarrow> dec n = [digit_char (n div 10), digit_char (n mod 10)]"
  by (subst dec.simps) (simp add: dec_digit)

lemma pad2_two: "10 \<le> n \<Longrightarrow> n < 100 \<Longrightarrow> pad 2 n = [digit_char (n div 10), digit_char (n mod 10)]"
  by (simp add: pad_def dec_two)

lemma dec_2025: "dec 2025 = ''2025''"
  by (simp add: dec.simps [of 2025] dec.simps [of 202] dec.simps [of 20] dec.simps [of 2] digit_char_def)

lemma pad4_2025: "pad 4 2025 = ''2025''"
  by (simp add: pad_def dec_2025)

lemma ts_noon: "current_timestamp noon = ''2025-06-06 12:00:00''"
  by (simp add: current_timestamp_def date_text_def time_text_def noon_def pad2_small pad2_two
      pad4_2025 digit_char_def)

lemma iso_midnight: "isoformat (noon\<lparr>hour := 0\<rparr>) = ''2025-06-06T00:00:00''"
  by (simp add: isoformat_def date_text_def time_text_def noon_def pad2_small pad2_two
      pad4_2025 digit_char_def)

lemma iso_next: "isoformat (noon\<lparr>day := 7, hour := 0\<rparr>) = ''2025-06-07T00:00:00''"
  by (simp add: isoformat_def date_text_def time_text_def noon_def pad2_small pad2_two
      pad4_2025 digit_char_def)

lemma iso_prev: "isoformat (noon\<lparr>day := 5, hour := 0\<rparr>) = ''2025-06-05T00:00:00''"
  by (simp add: isoformat_def date_text_def time_text_def noon_def pad2_small pad2_two
      pad4_2025 digit_char_def)

lemma cmp_start: "\<not> text_le ''2025-06-06T00:00:00'' ''2025-06-06 12:00:00''"
  by simp

lemma cmp_end: "text_le ''2025-06-06 12:00:00'' ''2025-06-06T00:00:00''"
  by simp

lemma cmp_prev: "text_le ''2025-06-05T00:00:00'' ''2025-06-06 12:00:00''"
  by simp

lemma dec_999999: "dec 999999 = ''999999''"
  by (simp add: dec.simps [of 999999] dec.simps [of 99999] dec.simps [of 9999]
      dec.simps [of 999] dec.simps [of 99] dec.simps [of 9] digit_char_def)

lemma pad6_999999: "pad 6 999999 = ''999999''"
  by (simp add: pad_def dec_999999)

lemma iso_day_end:
  "isoformat (noon\<lparr>hour := 23, minute := 59, second := 59, microsecond := 999999\<rparr>) =
     ''2025-06-06T23:59:59.999999''"
  by (simp add: isoformat_def date_text_def time_text_def noon_def pad2_small pad2_two
      pad4_2025 pad6_999999 digit_char_def)

text \<open>
  No chart whose timestamp was written by \<^verbatim>\<open>CURRENT_TIMESTAMP\<close> on the day of the start
  bound is ever selected, whatever the end bound: after the common date, the stored text
  continues with a space and the bound with \<^verbatim>\<open>T\<close>.
\<close>

lemma text_le_common_prefix: "text_le (p @ xs) (p @ ys) = text_le xs ys"
  by (induction p) simp_all

lemma start_day_text_above:
  "date_text s = date_text t \<Longrightarrow> \<not> text_le (isoformat s) (current_timestamp t)"
  by (simp add: isoformat_def current_timestamp_def text_le_common_prefix)

lemma date_range_excludes_start_day:
  assumes "date_text s = date_text t"
  shows "\<forall>c\<in>set (get_charts_by_date_range db s e). sum_timestamp c \<noteq> current_timestamp t"
proof
  fix c assume "c \<in> set (get_charts_by_date_range db s e)"
  then obtain r where r: "between (isoformat s) (isoformat e) r" and c: "c = summary_of_row db r"
    by (auto simp: get_charts_by_date_range_def set_order_by)
  from r have "text_le (isoformat s) (col_timestamp r)" by (simp add: between_def)
  with start_day_text_above [OF assms] have "col_timestamp r \<noteq> current_timestamp t" by auto
  with c show "sum_timestamp c \<noteq> current_timestamp t" by (simp add: summary_of_row_def)
qed

text \<open>
  C9 fails on the code. A chart saved at noon of 6 June 2025 gets the timestamp
  \<^verbatim>\<open>2025-06-06 12:00:00\<close>. The range from midnight of 6 June to midnight of 7 June
  contains that instant and yet selects nothing, and neither does the range of that one
  day, from \<^verbatim>\<open>00:00:00\<close> to \<^verbatim>\<open>23:59:59.999999\<close>, which the timeline asks for when a
  date is picked. The range from midnight of 5 June to midnight of 6 June does not
  contain the instant and yet selects the chart. The bounds are bound as
  \<^verbatim>\<open>2025-06-06T00:00:00\<close>, and a space sorts before \<^verbatim>\<open>T\<close>.
\<close>

theorem date_range_misses_chart_of_start_day:
  "dt_le (noon\<lparr>hour := 0\<rparr>) noon \<and> dt_le noon (noon\<lparr>day := 7, hour := 0\<rparr>) \<and>
   dt_le noon (noon\<lparr>hour := 23, minute := 59, second := 59, microsecond := 999999\<rparr>) \<and>
   \<not> dt_le noon (noon\<lparr>hour := 0\<rparr>) \<and>
   (case save_chart noon new_database ''Q'' ''L'' job_result '''' None ''general'' of
      Inl e \<Rightarrow> False
    | Inr (cid, db') \<Rightarrow>
        map col_timestamp (charts db') = [''2025-06-06 12:00:00''] \<and>
        get_charts_by_date_range db' (noon\<lparr>hour := 0\<rparr>) (noon\<lparr>day := 7, hour := 0\<rparr>) = [] \<and>
        get_charts_by_date_range db' (noon\<lparr>hour := 0\<rparr>)
          (noon\<lparr>hour := 23, minute := 59, second := 59, microsecond := 999999\<rparr>) = [] \<and>
        map sum_id (get_charts_by_date_range db' (noon\<lparr>day := 5, hour := 0\<rparr>) (noon\<lparr>hour := 0\<rparr>)) =
          [cid])"
proof -
  have d: "dt_le (noon\<lparr>hour := 0\<rparr>) noon \<and> dt_le noon (noon\<lparr>day := 7, hour := 0\<rparr>) \<and>
      dt_le noon (noon\<lparr>hour := 23, minute := 59, second := 59, microsecond := 999999\<rparr>) \<and>
      \<not> dt_le noon (noon\<lparr>hour := 0\<rparr>)"
    by (simp add: dt_le_def instant_def noon_def)
  have s: "save_chart noon new_database ''Q'' ''L'' job_result '''' None ''general'' =
      Inr (1, new_database\<lparr>sequence := 1,
        charts := [saved_row noon new_database ''Q'' ''L'' job_result '''' None ''general'']\<rparr>)"
    by (simp add: save_chart_def saved_row_def Let_def new_database_def lastrowid_def)
  show ?thesis
    unfolding s using d
    by (simp add: get_charts_by_date_range_def between_def order_by_def ts_noon iso_midnight
        iso_next iso_prev iso_day_end cmp_start cmp_end cmp_prev summary_of_row_def saved_row_def
        lastrowid_def new_database_def del: text_le.simps)
qed

section \<open>The wheel\<close>

lemma draw_aspects_append:
  "draw_aspects r (xs @ ys) ps = draw_aspects r xs ps @ draw_aspects r ys ps"
  by (induction xs) simp_all

lemma draw_aspect_not_applying: "applying a \<noteq> Some True \<Longrightarrow> draw_aspect r ps a = []"
  by (cases "applying a") (auto simp: draw_aspect_def get_applying_def)

lemma draw_aspect_lines: "length (filter is_line (draw_aspect r ps a)) \<le> 1"
  by (simp add: draw_aspect_def Let_def split: option.splits)

lemma draw_aspects_filter:
  "draw_aspects r as ps = draw_aspects r (filter (\<lambda>a. applying a = Some True) as) ps"
  by (induction as) (simp_all add: draw_aspect_not_applying)

lemma draw_aspects_set:
  "set (draw_aspects r as ps) = (\<Union>a\<in>set as. set (draw_aspect r ps a))"
  by (induction as) auto

lemma draw_aspects_lines: "length (filter is_line (draw_aspects r as ps)) \<le> length as"
proof (induction as)
  case Nil
  then show ?case by simp
next
  case (Cons a as)
  have "length (filter is_line (draw_aspect r ps a)) \<le> 1" by (rule draw_aspect_lines)
  with Cons show ?case by simp
qed

text \<open>
  C6. The calls of \<^const>\<open>draw_aspects\<close> are those for the applying aspects alone:
  removing every aspect whose flag is false or missing changes nothing, every call comes
  from an aspect whose flag is true, there are at most as many chords as applying
  aspects, and a list without applying aspects draws nothing.
\<close>

theorem draw_aspects_only_applying:
  "draw_aspects r as ps = draw_aspects r (filter (\<lambda>a. applying a = Some True) as) ps \<and>
   (\<forall>c\<in>set (draw_aspects r as ps).
      \<exists>a\<in>set as. applying a = Some True \<and> c \<in> set (draw_aspect r ps a)) \<and>
   length (filter is_line (draw_aspects r as ps)) \<le>
     length (filter (\<lambda>a. applying a = Some True) as) \<and>
   ((\<forall>a\<in>set as. applying a \<noteq> Some True) \<longrightarrow> draw_aspects r as ps = [])"
proof (intro conjI)
  show f: "draw_aspects r as ps = draw_aspects r (filter (\<lambda>a. applying a = Some True) as) ps"
    by (rule draw_aspects_filter)
  show "\<forall>c\<in>set (draw_aspects r as ps).
      \<exists>a\<in>set as. applying a = Some True \<and> c \<in> set (draw_aspect r ps a)"
  proof
    fix c assume "c \<in> set (draw_aspects r as ps)"
    then obtain a where a: "a \<in> set as" and c: "c \<in> set (draw_aspect r ps a)"
      by (auto simp: draw_aspects_set)
    have "applying a = Some True"
    proof (rule ccontr)
      assume "applying a \<noteq> Some True"
      then have "draw_aspect r ps a = []" by (rule draw_aspect_not_applying)
      with c show False by simp
    qed
    with a c show "\<exists>a\<in>set as. applying a = Some True \<and> c \<in> set (draw_aspect r ps a)"
      by blast
  qed
  show "length (filter is_line (draw_aspects r as ps)) \<le>
     length (filter (\<lambda>a. applying a = Some True) as)"
    using draw_aspects_lines [of r "filter (\<lambda>a. applying a = Some True) as" ps] f by simp
  show "(\<forall>a\<in>set as. applying a \<noteq> Some True) \<longrightarrow> draw_aspects r as ps = []"
  proof
    assume "\<forall>a\<in>set as. applying a \<noteq> Some True"
    then have "filter (\<lambda>a. applying a = Some True) as = []" by (simp add: filter_empty_conv)
    with f show "draw_aspects r as ps = []" by simp
  qed
qed

theorem draw_aspects_only_applying_witness:
  "draw_aspects 100 [trine_separating, square_applying, sextile_unflagged] sun_moon =
     draw_aspects 100 [square_applying] sun_moon \<and>
   length (filter is_line
     (draw_aspects 100 [trine_separating, square_applying, sextile_unflagged] sun_moon)) \<le> 1 \<and>
   draw_aspects 100 [trine_separating, sextile_unflagged] sun_moon = []"
proof -
  have f: "filter (\<lambda>a. applying a = Some True)
      [trine_separating, square_applying, sextile_unflagged] = [square_applying]"
    by (simp add: trine_separating_def square_applying_def sextile_unflagged_def)
  have n: "\<forall>a\<in>set [trine_separating, sextile_unflagged]. applying a \<noteq> Some True"
    by (simp add: trine_separating_def sextile_unflagged_def)
  note t1 = draw_aspects_only_applying
    [of 100 "[trine_separating, square_applying, sextile_unflagged]" sun_moon]
  note t2 = draw_aspects_only_applying [of 100 "[trine_separating, sextile_unflagged]" sun_moon]
  have a: "draw_aspects 100 [trine_separating, square_applying, sextile_unflagged] sun_moon =
      draw_aspects 100 [square_applying] sun_moon"
    using t1 [THEN conjunct1] by (simp only: f)
  have "length (filter is_line
      (draw_aspects 100 [trine_separating, square_applying, sextile_unflagged] sun_moon)) \<le>
      length [square_applying]"
    using t1 [THEN conjunct2, THEN conjunct2, THEN conjunct1] by (simp only: f)
  then have b: "length (filter is_line
      (draw_aspects 100 [trine_separating, square_applying, sextile_unflagged] sun_moon)) \<le> 1"
    by (simp only: list.size One_nat_def add_0)
  have c: "draw_aspects 100 [trine_separating, sextile_unflagged] sun_moon = []"
    by (rule mp [OF t2 [THEN conjunct2, THEN conjunct2, THEN conjunct2] n])
  from a b c show ?thesis by (intro conjI)
qed

lemma draw_aspect_unknown:
  "planet1 a \<notin> fst ` set ps \<or> planet2 a \<notin> fst ` set ps \<Longrightarrow> draw_aspect r ps a = []"
  by (auto simp: draw_aspect_def map_of_eq_None_iff [symmetric] split: option.splits)

text \<open>
  C7. An applying aspect one of whose planets is no key of \<open>planets\<close> adds no call: it
  draws nothing, and the loop goes on to the aspects after it, the list drawing what it
  draws without that aspect.
\<close>

theorem draw_aspects_skips_unknown_planet:
  assumes "applying a = Some True"
    and "planet1 a \<notin> fst ` set ps \<or> planet2 a \<notin> fst ` set ps"
  shows "draw_aspect r ps a = [] \<and>
         draw_aspects r (xs @ a # ys) ps = draw_aspects r (xs @ ys) ps"
proof -
  have e: "draw_aspect r ps a = []" using assms(2) by (rule draw_aspect_unknown)
  then have "draw_aspects r (xs @ a # ys) ps = draw_aspects r (xs @ ys) ps"
    by (simp add: draw_aspects_append)
  with e show ?thesis by simp
qed

theorem draw_aspects_skips_unknown_planet_witness:
  "applying square_to_pluto = Some True \<and>
   planet2 square_to_pluto \<notin> fst ` set sun_moon \<and>
   draw_aspect 100 sun_moon square_to_pluto = [] \<and>
   draw_aspects 100 ([trine_separating] @ square_to_pluto # [square_applying]) sun_moon =
     draw_aspects 100 ([trine_separating] @ [square_applying]) sun_moon"
proof -
  have h1: "applying square_to_pluto = Some True" by (simp add: square_to_pluto_def)
  have h2: "planet2 square_to_pluto \<notin> fst ` set sun_moon"
    by (simp add: square_to_pluto_def sun_moon_def)
  then have h3: "planet1 square_to_pluto \<notin> fst ` set sun_moon \<or>
      planet2 square_to_pluto \<notin> fst ` set sun_moon" by simp
  note t = draw_aspects_skips_unknown_planet
    [OF h1 h3, of 100 "[trine_separating]" "[square_applying]"]
  from t [THEN conjunct1] t [THEN conjunct2] h1 h2 show ?thesis by (intro conjI)
qed

lemma draw_placeholder_raises:
  "draw_placeholder w h = ([SetPen (Colour ''#ccc'') 2 SolidLine], Some no_drawCircle)"
  by (simp add: draw_placeholder_def Let_def call_def drawCircle_def raise_def no_drawCircle_def)

text \<open>The zodiac wheel makes its 74 sector calls and then fails at its first circle.\<close>

lemma draw_zodiac_wheel_raises:
  "snd (draw_zodiac_wheel a b) = Some no_drawCircle \<and>
   length (fst (draw_zodiac_wheel a b)) = 74 \<and>
   length (filter is_line (fst (draw_zodiac_wheel a b))) = 12"
  by (simp add: draw_zodiac_wheel_def signs_def draw_sign_def enumerate_eq_zip upt_rec Let_def
      call_def calls_def drawCircle_def raise_def no_drawCircle_def)

text \<open>
  \<^const>\<open>draw_chart_wheel\<close> fails at the background circle, for every payload: the
  zodiac wheel, the houses, the planets and the aspects are never reached.
\<close>

lemma draw_chart_wheel_raises:
  "draw_chart_wheel w h v =
     ([SetPen (Colour ''#f0f0f0'') 1 SolidLine, SetBrush (Brush (Colour ''#fafafa''))],
      Some no_drawCircle)"
  by (simp add: draw_chart_wheel_def Let_def call_def drawCircle_def raise_def no_drawCircle_def)

text \<open>
  So \<^const>\<open>paintEvent\<close> ends with the exception in every state of the canvas, having
  drawn no shape: the handler of the wheel's exception calls the placeholder, which
  raises again.
\<close>

lemma paintEvent_always_raises:
  "snd (paintEvent w h data) = Some no_drawCircle \<and>
   filter is_draw (fst (paintEvent w h data)) = []"
proof (cases data)
  case NoData
  then show ?thesis by (simp add: paintEvent_def draw_placeholder_raises call_def)
next
  case (ChartDict v)
  then show ?thesis
    by (cases v)
      (simp_all add: paintEvent_def draw_placeholder_raises draw_chart_wheel_raises call_def)
qed

text \<open>
  C3 fails on the code. With no chart assigned, and with a dictionary that has no key
  \<^verbatim>\<open>chart_data\<close>, \<^const>\<open>paintEvent\<close> sets the placeholder's pen and then raises at
  \<^verbatim>\<open>painter.drawCircle\<close>: neither the ring nor the caption is painted. With a payload
  that is present and empty the wheel raises at its background circle, the handler
  turns to the placeholder, and that raises in the same way.
\<close>

theorem paintEvent_paints_no_placeholder:
  "paintEvent 400 400 NoData =
     ([SetRenderHint, SetPen (Colour ''#ccc'') 2 SolidLine], Some no_drawCircle) \<and>
   paintEvent 400 400 (ChartDict None) =
     ([SetRenderHint, SetPen (Colour ''#ccc'') 2 SolidLine], Some no_drawCircle) \<and>
   paintEvent 400 400 (ChartDict (Some (Dict empty_payload))) =
     ([SetRenderHint, SetPen (Colour ''#f0f0f0'') 1 SolidLine,
       SetBrush (Brush (Colour ''#fafafa'')), SetPen (Colour ''#ccc'') 2 SolidLine],
      Some no_drawCircle) \<and>
   caption_text \<notin> set (fst (paintEvent 400 400 NoData)) \<and>
   caption_text \<notin> set (fst (paintEvent 400 400 (ChartDict (Some (Dict empty_payload)))))"
  by (simp add: paintEvent_def draw_placeholder_raises draw_chart_wheel_raises call_def
      caption_text_def)


end
